theory Spec2Isabelle
  imports Main
begin

section \<open>Configuration\<close>

text \<open>
  The constants of \<^verbatim>\<open>class Config\<close> in \<^verbatim>\<open>src/api/bot.py\<close>.
  \<^verbatim>\<open>XP_MULTIPLIER = 1.5\<close> is a float (an IEEE double); it is used in one expression
  only, \<^verbatim>\<open>int(required_xp * Config.XP_MULTIPLIER)\<close>, which \<open>scale_required\<close> below
  computes.
\<close>

definition XP_PER_MESSAGE :: int where
  "XP_PER_MESSAGE = 5"

definition COINS_PER_MESSAGE :: int where
  "COINS_PER_MESSAGE = 2"

definition DAILY_REWARD_COINS :: int where
  "DAILY_REWARD_COINS = 100"

definition DAILY_REWARD_XP :: int where
  "DAILY_REWARD_XP = 50"

definition BASE_XP :: int where
  "BASE_XP = 100"

definition RANK_PRICES :: "(string \<times> int) list" where
  "RANK_PRICES = [(''VIP'', 5000), (''Premium'', 15000), (''Admin'', 50000)]"

text \<open>
  A value of \<^verbatim>\<open>SHOP_ITEMS\<close>: the keys \<^verbatim>\<open>"price"\<close>, \<^verbatim>\<open>"type"\<close> and the optional
  \<^verbatim>\<open>"duration"\<close>. The item names of the source start with an emoji and a blank; the
  model keeps the ASCII remainder of each name. The names only serve as dictionary keys,
  and they stay pairwise distinct.
\<close>

record shop_item =
  price :: int
  item_type :: string
  duration :: "int option"

definition SHOP_ITEMS :: "(string \<times> shop_item) list" where
  "SHOP_ITEMS =
    [(''Double XP (1 hour)'', \<lparr>price = 500, item_type = ''boost'', duration = Some 3600\<rparr>),
     (''Coin Multiplier (1 hour)'', \<lparr>price = 750, item_type = ''boost'', duration = Some 3600\<rparr>),
     (''Custom Title'', \<lparr>price = 2000, item_type = ''cosmetic'', duration = None\<rparr>),
     (''Profile Theme'', \<lparr>price = 1500, item_type = ''cosmetic'', duration = None\<rparr>),
     (''Achievement Badge'', \<lparr>price = 3000, item_type = ''cosmetic'', duration = None\<rparr>)]"


section \<open>Exceptions\<close>

text \<open>
  The exceptions that the modelled code can raise. Each \<^verbatim>\<open>try\<close> block of the source
  catches them with \<^verbatim>\<open>except Exception\<close>.
\<close>

datatype error = UnboundLocalError | IndexError | ValueError | KeyError | OverflowError

section \<open>Level calculator\<close>

text \<open>
  \<^verbatim>\<open>int.bit_length\<close>: the number of binary digits of a positive integer.
\<close>

function bit_length :: "int \<Rightarrow> nat" where
  "bit_length n = (if n \<le> 0 then 0 else Suc (bit_length (n div 2)))"
  by pat_completeness auto
termination
  by (relation "measure nat") auto

declare bit_length.simps [simp del]

text \<open>
  Rounding to a double, for an integer \<open>n \<ge> 0\<close>: the nearest integer with at most 53
  significant binary digits, a tie going to the even significand. The exponent is not
  bounded here; the caller checks the range. A half-integer \<open>n / 2\<close> rounds to
  \<open>nearest_double n / 2\<close>, since halving only changes the exponent.
\<close>

definition nearest_double :: "int \<Rightarrow> int" where
  "nearest_double n =
     (if bit_length n \<le> 53 then n
      else (let ulp = 2 ^ (bit_length n - 53);
                q = n div ulp;
                rest = n mod ulp
            in if ulp < 2 * rest \<or> (2 * rest = ulp \<and> odd q) then (q + 1) * ulp else q * ulp))"

text \<open>
  \<^verbatim>\<open>int(required_xp * Config.XP_MULTIPLIER)\<close>, step by step as CPython computes it:
  \<^item> the integer is converted to a double, rounded to nearest; a result of \<open>2 ^ 1024\<close> or
    more is out of range and raises \<^verbatim>\<open>OverflowError\<close>;
  \<^item> the double is multiplied by \<open>1.5\<close> and the product rounded to nearest; \<open>product2\<close> is
    twice the rounded product; a product of \<open>2 ^ 1024\<close> or more is \<open>inf\<close>;
  \<^item> \<^verbatim>\<open>int\<close> truncates the product towards zero, and raises \<^verbatim>\<open>OverflowError\<close> on \<open>inf\<close>.
  The sign is carried separately: rounding and truncation are symmetric.
\<close>

definition scale_required :: "int \<Rightarrow> error + int" where
  "scale_required required_xp =
     (let as_float = nearest_double \<bar>required_xp\<bar>
      in if 2 ^ 1024 \<le> as_float then Inl OverflowError
         else (let product2 = nearest_double (3 * as_float)
               in if 2 ^ 1025 \<le> product2 then Inl OverflowError
                  else Inr (if required_xp < 0 then - (product2 div 2) else product2 div 2)))"

text \<open>
  The \<^verbatim>\<open>while\<close> loop of \<^verbatim>\<open>calculate_level\<close>, with its three variables as arguments. A
  round subtracts the threshold, adds a level and scales the threshold; an exception of
  the scaling ends the call. The source has no bound on the number of rounds (the loop
  would spin on a threshold \<open>\<le> 0\<close>), so the loop is a partial function: \<open>None\<close> stands
  for a run that does not return, \<open>Some (Inl e)\<close> for the exception \<open>e\<close>.
\<close>

partial_function (option) calculate_level_loop :: "int \<Rightarrow> int \<Rightarrow> int \<Rightarrow> (error + int) option" where
  "calculate_level_loop xp level required_xp =
     (if xp \<ge> required_xp
      then (case scale_required required_xp of
              Inl e \<Rightarrow> Some (Inl e)
            | Inr next_required \<Rightarrow>
                calculate_level_loop (xp - required_xp) (level + 1) next_required)
      else Some (Inr level))"

declare calculate_level_loop.simps [code]

definition calculate_level :: "int \<Rightarrow> (error + int) option" where
  "calculate_level xp = calculate_level_loop xp 1 BASE_XP"



text \<open>
  Auxiliary, for the proofs only: \<open>run r n\<close> scales the threshold \<open>r\<close> \<open>n\<close> times and
  returns the sum of the first \<open>n\<close> thresholds together with the threshold reached, or
  \<open>None\<close> when one of the scalings raises.
\<close>

fun run :: "int \<Rightarrow> nat \<Rightarrow> (int \<times> int) option" where
  "run r 0 = Some (0, r)"
| "run r (Suc n) =
     (case scale_required r of
        Inl e \<Rightarrow> None
      | Inr r' \<Rightarrow> (case run r' n of None \<Rightarrow> None | Some (s, c) \<Rightarrow> Some (r + s, c)))"

section \<open>Strings and built-ins\<close>

text \<open>
  A string of the model is a Python \<^verbatim>\<open>str\<close> whose code points are all below 256, one
  \<open>char\<close> for each code point.
\<close>

text \<open>
  Reading a local variable: \<open>None\<close> is a local that has not been assigned yet.
\<close>

definition load_local :: "'a option \<Rightarrow> error + 'a" where
  "load_local slot = (case slot of None \<Rightarrow> Inl UnboundLocalError | Some v \<Rightarrow> Inr v)"

text \<open>\<^verbatim>\<open>s.split(sep)\<close> for a separator of one character.\<close>

fun split :: "char \<Rightarrow> string \<Rightarrow> string list" where
  "split sep [] = [[]]"
| "split sep (c # cs) =
     (if c = sep then [] # split sep cs
      else (case split sep cs of [] \<Rightarrow> [[c]] | p # ps \<Rightarrow> (c # p) # ps))"

text \<open>
  \<^verbatim>\<open>xs[i]\<close> on a list of length \<open>n\<close>: the positions \<open>0\<close> to \<open>n - 1\<close>, the same positions
  again under the names \<open>- n\<close> to \<open>- 1\<close>, and \<^verbatim>\<open>IndexError\<close> for every other index.
\<close>

definition getitem :: "'a list \<Rightarrow> int \<Rightarrow> error + 'a" where
  "getitem xs i =
     (if 0 \<le> i \<and> i < int (length xs) then Inr (xs ! nat i)
      else if i < 0 \<and> - int (length xs) \<le> i then Inr (xs ! nat (int (length xs) + i))
      else Inl IndexError)"

text \<open>\<^verbatim>\<open>d[k]\<close> on a dictionary, kept as an association list in insertion order.\<close>

definition lookup :: "('k \<times> 'v) list \<Rightarrow> 'k \<Rightarrow> error + 'v" where
  "lookup d k = (case map_of d k of None \<Rightarrow> Inl KeyError | Some v \<Rightarrow> Inr v)"

text \<open>
  \<^verbatim>\<open>str.upper\<close> on the ASCII characters: \<open>a\<close>..\<open>z\<close> go to \<open>A\<close>..\<open>Z\<close>, the others stay.
  The model leaves the code points from 128 on alone as well; Python maps some of them
  to other characters, none of them to an ASCII letter of a key of \<^verbatim>\<open>RANK_PRICES\<close>
  (\<open>0xDF\<close> becomes \<open>SS\<close>, the rest stays outside ASCII).
\<close>

definition upper_char :: "char \<Rightarrow> char" where
  "upper_char c =
     (let k = (of_char c :: int) in if 97 \<le> k \<and> k \<le> 122 then char_of (k - 32) else c)"

definition upper :: "string \<Rightarrow> string" where
  "upper s = map upper_char s"

text \<open>
  \<^verbatim>\<open>int(s)\<close> on a string without underscores (the argument is a part of a string split
  at underscores). CPython skips white space at both ends: the ASCII codes 9 to 13 and
  32, and, among the code points from 128 to 255, the Unicode spaces 133 and 160. The
  codes 28 to 31 are not skipped. Then an optional sign and at least one decimal digit
  \<open>0\<close>..\<open>9\<close> must remain; more than 4300 digits are refused (the default of
  \<^verbatim>\<open>sys.int_max_str_digits\<close>). Every failure is a \<^verbatim>\<open>ValueError\<close>.
\<close>

definition is_space :: "char \<Rightarrow> bool" where
  "is_space c =
     (let k = (of_char c :: int) in (9 \<le> k \<and> k \<le> 13) \<or> k = 32 \<or> k = 133 \<or> k = 160)"

definition is_digit :: "char \<Rightarrow> bool" where
  "is_digit c = (let k = (of_char c :: int) in 48 \<le> k \<and> k \<le> 57)"

definition strip :: "string \<Rightarrow> string" where
  "strip s = rev (dropWhile is_space (rev (dropWhile is_space s)))"

definition digits_value :: "string \<Rightarrow> error + int" where
  "digits_value ds =
     (if ds \<noteq> [] \<and> list_all is_digit ds \<and> length ds \<le> 4300
      then Inr (foldl (\<lambda>acc c. acc * 10 + (of_char c - 48)) 0 ds)
      else Inl ValueError)"

definition int_of_str :: "string \<Rightarrow> error + int" where
  "int_of_str s =
     (case strip s of
        [] \<Rightarrow> Inl ValueError
      | c # cs \<Rightarrow>
          if c = CHR ''-'' then (case digits_value cs of Inl e \<Rightarrow> Inl e | Inr v \<Rightarrow> Inr (- v))
          else if c = CHR ''+'' then digits_value cs
          else digits_value (c # cs))"

text \<open>
  The decimal digits of an integer \<open>n \<ge> 0\<close>, and \<^verbatim>\<open>str(i)\<close> as the f-strings format an
  integer: CPython refuses to format an integer of more than 4300 digits with a
  \<^verbatim>\<open>ValueError\<close>. \<open>str_error i\<close> is the exception that formatting \<open>i\<close> raises, if any.
\<close>

function decimal :: "int \<Rightarrow> string" where
  "decimal n =
     (if n < 10 then [char_of (48 + n)] else decimal (n div 10) @ [char_of (48 + n mod 10)])"
  by pat_completeness auto
termination
  by (relation "measure nat") auto

declare decimal.simps [simp del]

definition str_error :: "int \<Rightarrow> error option" where
  "str_error i = (if 10 ^ 4300 \<le> \<bar>i\<bar> then Some ValueError else None)"

definition str :: "int \<Rightarrow> error + string" where
  "str i =
     (case str_error i of
        Some e \<Rightarrow> Inl e
      | None \<Rightarrow> Inr (if i < 0 then CHR ''-'' # decimal (- i) else decimal i))"

text \<open>
  \<^verbatim>\<open>format_number(num)\<close> returns a text, which is presentation; the model keeps the
  exception that the call raises, if any. From \<open>10 ^ 9\<close> on the function divides
  \<^verbatim>\<open>num / 1_000_000_000\<close>, and the division of two integers raises \<^verbatim>\<open>OverflowError\<close>
  when the quotient rounds to a double of \<open>2 ^ 1024\<close> or more, that is from
  \<open>2 ^ 1024 - 2 ^ 970\<close> on. The two smaller divisions cannot overflow. Below 1000 the
  function returns \<^verbatim>\<open>str(num)\<close>.
\<close>

definition format_number_error :: "int \<Rightarrow> error option" where
  "format_number_error num =
     (if num \<ge> 1000000000
      then (if num \<ge> 1000000000 * (2 ^ 1024 - 2 ^ 970) then Some OverflowError else None)
      else if num \<ge> 1000000 then None
      else if num \<ge> 1000 then None
      else str_error num)"

text \<open>The first exception of a sequence of evaluations, from left to right.\<close>

fun first_error :: "error option list \<Rightarrow> error option" where
  "first_error [] = None"
| "first_error (None # rest) = first_error rest"
| "first_error (Some e # rest) = Some e"

section \<open>Time\<close>

text \<open>
  A naive \<^verbatim>\<open>datetime\<close>: the day as its ordinal number (\<^verbatim>\<open>date.toordinal()\<close>), the second
  of the day (below 86400) and the microsecond (below 1000000). \<^verbatim>\<open>.date()\<close> is the day,
  and \<^verbatim>\<open>today - timedelta(days=1)\<close> is the day before. Every handler takes the value of
  \<^verbatim>\<open>datetime.now()\<close> as an argument \<open>now\<close>; the clock does not advance within one call.
  The store keeps time stamps as ISO strings (\<^verbatim>\<open>isoformat\<close>, read back by
  \<^verbatim>\<open>fromisoformat\<close>); the model keeps the \<open>datetime\<close> itself.
\<close>

record datetime =
  day :: int
  second_of_day :: int
  microsecond :: int

text \<open>
  \<^verbatim>\<open>diff = tomorrow - now\<close> is a \<^verbatim>\<open>timedelta\<close>; \<^verbatim>\<open>diff.seconds\<close> is its whole seconds
  within the day, so it is 0 when \<open>now\<close> is midnight sharp (then \<^verbatim>\<open>diff.days\<close> is 1).
  \<open>hours\<close> and \<open>minutes\<close> are below 24 and 60, so formatting them cannot raise.
\<close>

definition time_until_next_day :: "datetime \<Rightarrow> string" where
  "time_until_next_day now =
     (let diff_microseconds = 86400 * 1000000 - (second_of_day now * 1000000 + microsecond now);
          diff_seconds = (diff_microseconds div 1000000) mod 86400;
          hours = diff_seconds div 3600;
          minutes = (diff_seconds mod 3600) div 60
      in decimal hours @ ''h '' @ decimal minutes @ ''m'')"

section \<open>The store\<close>

text \<open>
  A row of the \<^verbatim>\<open>users\<close> table, with the keys of \<^verbatim>\<open>new_user\<close> in
  \<^verbatim>\<open>get_or_create_user\<close> as fields.
\<close>

record user =
  user_id :: int
  username :: "string option"
  first_name :: "string option"
  xp :: int
  level :: int
  coins :: int
  rank :: string
  last_daily :: "datetime option"
  daily_streak :: int
  total_messages :: int
  join_date :: datetime
  last_active :: datetime

text \<open>
  A row of \<^verbatim>\<open>transactions\<close>: user id, type, amount, description, time stamp. A row of
  \<^verbatim>\<open>level_ups\<close>: user id, old level, new level, time stamp.
\<close>

datatype transaction = Transaction int string int string datetime

datatype level_up = Level_Up int int int datetime

text \<open>
  The Supabase client is modelled as a table in memory, keyed by \<^verbatim>\<open>user_id\<close>, with two
  logs. Its calls always succeed: a store fault, which the source catches in each
  function and turns into a \<open>None\<close>/\<open>False\<close> result, is outside the model, and so are
  the \<^verbatim>\<open>if not user\<close> returns that only such a fault can reach. The values of a row are
  the unbounded integers of Python.
\<close>

record db =
  users :: "int \<Rightarrow> user option"
  transactions :: "transaction list"
  level_ups :: "level_up list"

text \<open>\<^verbatim>\<open>supabase.table('users').update(changes).eq('user_id', uid).execute()\<close>\<close>

definition update_user :: "db \<Rightarrow> int \<Rightarrow> (user \<Rightarrow> user) \<Rightarrow> db" where
  "update_user d uid changes =
     (case users d uid of
        None \<Rightarrow> d
      | Some row \<Rightarrow> d\<lparr>users := (users d)(uid \<mapsto> changes row)\<rparr>)"

definition get_or_create_user ::
  "db \<Rightarrow> datetime \<Rightarrow> int \<Rightarrow> string option \<Rightarrow> string option \<Rightarrow> user \<times> db" where
  "get_or_create_user d now uid uname fname =
     (case users d uid of
        Some row \<Rightarrow> (row, d)
      | None \<Rightarrow>
          (let new_user = \<lparr>user_id = uid, username = uname, first_name = fname, xp = 0,
                 level = 1, coins = 100, rank = ''Newbie'', last_daily = None,
                 daily_streak = 0, total_messages = 0, join_date = now, last_active = now\<rparr>
           in (new_user, d\<lparr>users := (users d)(uid \<mapsto> new_user)\<rparr>)))"

definition log_transaction :: "db \<Rightarrow> datetime \<Rightarrow> int \<Rightarrow> string \<Rightarrow> int \<Rightarrow> string \<Rightarrow> db" where
  "log_transaction d now uid transaction_type amount description =
     d\<lparr>transactions := transactions d @ [Transaction uid transaction_type amount description now]\<rparr>"

definition log_level_up :: "db \<Rightarrow> datetime \<Rightarrow> int \<Rightarrow> int \<Rightarrow> int \<Rightarrow> db" where
  "log_level_up d now uid old_level new_level =
     d\<lparr>level_ups := level_ups d @ [Level_Up uid old_level new_level now]\<rparr>"


section \<open>Events and replies\<close>

text \<open>
  What the handlers read of a Telegram user (\<^verbatim>\<open>update.effective_user\<close>,
  \<^verbatim>\<open>query.from_user\<close>): \<^verbatim>\<open>id\<close>, \<^verbatim>\<open>is_bot\<close> and \<^verbatim>\<open>first_name\<close>.
\<close>

record sender =
  sender_id :: int
  is_bot :: bool
  sender_first_name :: string

text \<open>
  The replies, one constructor for each message template of the source, with the values
  the template shows. The wording and the keyboards are presentation.
\<close>

datatype reply =
    Level_Up_Notice string int int int
  | Already_Claimed string
  | Daily_Error string
  | Daily_Reward int int int int "int option"
  | Daily_Failed
  | Insufficient_Funds string int int
  | Purchase_Success string int int
  | Purchase_Error
  | Upgrade_Success string int int
  | Upgrade_Error


section \<open>Message reward\<close>

text \<open>
  \<^verbatim>\<open>update_user_xp\<close>: \<open>(True, _)\<close> is "level up occurred". The update writes
  \<^verbatim>\<open>user['total_messages'] + 1\<close>, computed from the row read at the start. An exception
  of \<^verbatim>\<open>calculate_level\<close> is caught by the \<^verbatim>\<open>except\<close> arm, which returns \<open>False\<close>; nothing
  has been written to the row then.
\<close>

definition update_user_xp :: "db \<Rightarrow> datetime \<Rightarrow> int \<Rightarrow> int \<Rightarrow> int \<Rightarrow> (bool \<times> db) option" where
  "update_user_xp d now uid xp_gain coins_gain =
     (let (user, d1) = get_or_create_user d now uid None None;
          new_xp = xp user + xp_gain;
          new_coins = coins user + coins_gain
      in case calculate_level new_xp of
           None \<Rightarrow> None
         | Some (Inl e) \<Rightarrow> Some (False, d1)
         | Some (Inr new_level) \<Rightarrow>
             (let d2 = update_user d1 uid
                    (\<lambda>row. row\<lparr>xp := new_xp, level := new_level, coins := new_coins,
                                total_messages := total_messages user + 1, last_active := now\<rparr>)
              in if new_level > level user
                 then Some (True, log_level_up d2 now uid (level user) new_level)
                 else Some (False, d2)))"

text \<open>
  \<^verbatim>\<open>handle_message\<close>, with \<^verbatim>\<open>chat.type\<close> as \<open>chat_type\<close>. The result is the store
  afterwards together with the list of replies sent, or with the exception that leaves
  the handler: the text of the level-up notice is built, outside any \<^verbatim>\<open>try\<close>, before the
  bonus is written, and it formats the level, \<^verbatim>\<open>format_number(user_data['xp'])\<close> and
  \<^verbatim>\<open>format_number(user_data['coins'])\<close>, in this order.
\<close>

definition handle_message ::
  "db \<Rightarrow> datetime \<Rightarrow> sender \<Rightarrow> string \<Rightarrow> ((error + reply list) \<times> db) option" where
  "handle_message d now user chat_type =
     (if chat_type \<noteq> ''group'' \<and> chat_type \<noteq> ''supergroup'' then Some (Inr [], d)
      else if is_bot user then Some (Inr [], d)
      else case update_user_xp d now (sender_id user) XP_PER_MESSAGE COINS_PER_MESSAGE of
             None \<Rightarrow> None
           | Some (level_up, d1) \<Rightarrow>
               if level_up
               then (let (user_data, d2) = get_or_create_user d1 now (sender_id user) None None
                     in case first_error [str_error (level user_data),
                                          format_number_error (xp user_data),
                                          format_number_error (coins user_data)] of
                          Some e \<Rightarrow> Some (Inl e, d2)
                        | None \<Rightarrow>
                            (let d3 = update_user d2 (sender_id user)
                                        (\<lambda>row. row\<lparr>coins := coins user_data + 50\<rparr>)
                             in Some (Inr [Level_Up_Notice (sender_first_name user)
                                             (level user_data) (xp user_data)
                                             (coins user_data)], d3)))
               else Some (Inr [], d1))"

section \<open>Daily reward\<close>

text \<open>
  The dictionaries that \<^verbatim>\<open>check_daily_reward\<close> returns:
  \<^verbatim>\<open>{"can_claim": True, "streak": s}\<close> is \<open>Can_Claim s\<close>, and
  \<^verbatim>\<open>{"can_claim": False, "reason": r}\<close>, with or without the key \<^verbatim>\<open>"time_left"\<close>, is
  \<open>Cannot_Claim r t\<close> with \<open>t = None\<close> when the key is absent.
\<close>

datatype daily_check = Can_Claim int | Cannot_Claim string "string option"

text \<open>
  The \<^verbatim>\<open>try\<close> block of \<^verbatim>\<open>check_daily_reward(user_id)\<close>. Its first statement is
  \<^verbatim>\<open>user = await get_or_create_user(user.id)\<close>: the argument reads the attribute \<open>id\<close> of
  the local variable \<open>user\<close>, not the parameter \<open>user_id\<close>, which the function never
  uses. \<open>user_local\<close> is the content of that local variable when the statement starts.
\<close>

definition check_daily_reward_try ::
  "db \<Rightarrow> datetime \<Rightarrow> sender option \<Rightarrow> error + (daily_check \<times> db)" where
  "check_daily_reward_try d now user_local =
     (case load_local user_local of
        Inl e \<Rightarrow> Inl e
      | Inr u \<Rightarrow>
          (let (user, d1) = get_or_create_user d now (sender_id u) None None
           in case last_daily user of
                None \<Rightarrow> Inr (Can_Claim 0, d1)
              | Some last_daily_value \<Rightarrow>
                  (let last_daily_date = day last_daily_value;
                       today = day now
                   in if last_daily_date = today
                      then Inr (Cannot_Claim ''Already claimed today''
                                  (Some (time_until_next_day now)), d1)
                      else (let yesterday = today - 1;
                                streak = daily_streak user
                            in if last_daily_date = yesterday
                               then Inr (Can_Claim (streak + 1), d1)
                               else Inr (Can_Claim 1, d1)))))"

text \<open>
  \<^verbatim>\<open>check_daily_reward\<close>: \<open>user\<close> is assigned in the function body, so it is a local
  variable of the function, and it has no value when the first statement reads it. The
  \<^verbatim>\<open>except Exception\<close> arm answers every exception of the block.
\<close>

definition check_daily_reward :: "db \<Rightarrow> datetime \<Rightarrow> int \<Rightarrow> daily_check \<times> db" where
  "check_daily_reward d now uid =
     (case check_daily_reward_try d now None of
        Inl e \<Rightarrow> (Cannot_Claim ''Database error'' None, d)
      | Inr r \<Rightarrow> r)"

text \<open>
  The second half of \<^verbatim>\<open>daily_command\<close> (from \<^verbatim>\<open># Calculate reward based on streak\<close> on),
  which runs when the check allows the claim, for the streak the check returned. Its
  \<^verbatim>\<open>try\<close> block answers an exception with the reply \<open>Daily_Failed\<close>, whatever has been
  written by then: \<^verbatim>\<open>calculate_level\<close> runs before the update, the description of the
  transaction is formatted after it, and the reward text after the transaction is
  logged.
\<close>

definition daily_command_reward :: "db \<Rightarrow> datetime \<Rightarrow> sender \<Rightarrow> int \<Rightarrow> (reply list \<times> db) option" where
  "daily_command_reward d now user streak =
     (let base_coins = DAILY_REWARD_COINS;
          base_xp = DAILY_REWARD_XP;
          streak_bonus = min (streak * 10) 200;
          total_coins = base_coins + (base_coins * streak_bonus) div 100;
          total_xp = base_xp + (base_xp * streak_bonus) div 100;
          (user_data, d1) = get_or_create_user d now (sender_id user) None None;
          new_coins = coins user_data + total_coins;
          new_xp = xp user_data + total_xp
      in case calculate_level new_xp of
           None \<Rightarrow> None
         | Some (Inl e) \<Rightarrow> Some ([Daily_Failed], d1)
         | Some (Inr new_level) \<Rightarrow>
             (let d2 = update_user d1 (sender_id user)
                    (\<lambda>row. row\<lparr>coins := new_coins, xp := new_xp, level := new_level,
                                last_daily := Some now, daily_streak := streak\<rparr>)
              in case str streak of
                   Inl e \<Rightarrow> Some ([Daily_Failed], d2)
                 | Inr streak_text \<Rightarrow>
                     (let d3 = log_transaction d2 now (sender_id user) ''daily_reward''
                                 total_coins (''Daily reward (streak: '' @ streak_text @ '')'')
                      in case first_error
                                [format_number_error total_coins, format_number_error total_xp,
                                 str_error streak,
                                 if streak_bonus > 0 then str_error streak_bonus else None,
                                 if new_level > level user_data then str_error new_level
                                 else None] of
                           Some e \<Rightarrow> Some ([Daily_Failed], d3)
                         | None \<Rightarrow>
                             Some ([Daily_Reward total_coins total_xp streak streak_bonus
                                      (if new_level > level user_data then Some new_level
                                       else None)], d3))))"

definition daily_command :: "db \<Rightarrow> datetime \<Rightarrow> sender \<Rightarrow> (reply list \<times> db) option" where
  "daily_command d now user =
     (let (daily_check, d1) = check_daily_reward d now (sender_id user)
      in case daily_check of
           Cannot_Claim reason (Some time_left) \<Rightarrow> Some ([Already_Claimed time_left], d1)
         | Cannot_Claim reason None \<Rightarrow> Some ([Daily_Error reason], d1)
         | Can_Claim streak \<Rightarrow> daily_command_reward d1 now user streak)"

section \<open>Shop and rank upgrades\<close>

text \<open>Sequencing of steps that may raise.\<close>

definition and_then :: "error + 'a \<Rightarrow> ('a \<Rightarrow> error + 'b) \<Rightarrow> error + 'b" where
  "and_then r f = (case r of Inl e \<Rightarrow> Inl e | Inr v \<Rightarrow> f v)"

text \<open>
  The first three statements of the \<^verbatim>\<open>try\<close> block of \<^verbatim>\<open>handle_shop_purchase\<close>:
  \<^verbatim>\<open>int(callback_data.split("_")[1])\<close>, \<^verbatim>\<open>list(Config.SHOP_ITEMS.keys())[item_index]\<close>
  and \<^verbatim>\<open>Config.SHOP_ITEMS[item_name]\<close>.
\<close>

definition shop_item_of :: "string \<Rightarrow> error + (string \<times> shop_item)" where
  "shop_item_of callback_data =
     and_then (getitem (split CHR ''_'' callback_data) 1) (\<lambda>part.
     and_then (int_of_str part) (\<lambda>item_index.
     and_then (getitem (map fst SHOP_ITEMS) item_index) (\<lambda>item_name.
     and_then (lookup SHOP_ITEMS item_name) (\<lambda>item_data.
     Inr (item_name, item_data)))))"

text \<open>
  \<^verbatim>\<open>handle_shop_purchase\<close>. An exception of the block is answered by the generic
  \<open>Purchase_Error\<close>: the three statements above raise before anything is written, and
  the two texts format \<^verbatim>\<open>format_number(item_data['price'])\<close> and the coins, the text of
  the success after the coins are written and the purchase is logged.
\<close>

definition handle_shop_purchase :: "db \<Rightarrow> datetime \<Rightarrow> sender \<Rightarrow> string \<Rightarrow> reply list \<times> db" where
  "handle_shop_purchase d now user callback_data =
     (case shop_item_of callback_data of
        Inl e \<Rightarrow> ([Purchase_Error], d)
      | Inr (item_name, item_data) \<Rightarrow>
          (let (user_data, d1) = get_or_create_user d now (sender_id user) None None
           in if coins user_data < price item_data
              then (case first_error [format_number_error (price item_data),
                                      format_number_error (coins user_data)] of
                      Some e \<Rightarrow> ([Purchase_Error], d1)
                    | None \<Rightarrow>
                        ([Insufficient_Funds item_name (price item_data) (coins user_data)], d1))
              else (let new_coins = coins user_data - price item_data;
                        d2 = update_user d1 (sender_id user) (\<lambda>row. row\<lparr>coins := new_coins\<rparr>);
                        d3 = log_transaction d2 now (sender_id user) ''purchase''
                               (- price item_data) (''Bought '' @ item_name)
                    in case first_error [format_number_error (price item_data),
                                         format_number_error new_coins] of
                         Some e \<Rightarrow> ([Purchase_Error], d3)
                       | None \<Rightarrow> ([Purchase_Success item_name (price item_data) new_coins], d3))))"

text \<open>
  The first two statements of the \<^verbatim>\<open>try\<close> block of \<^verbatim>\<open>handle_rank_upgrade\<close>:
  \<^verbatim>\<open>rank = callback_data.split("_")[1].upper()\<close> and
  \<^verbatim>\<open>price = Config.RANK_PRICES[rank]\<close>.
\<close>

definition rank_price_of :: "string \<Rightarrow> error + (string \<times> int)" where
  "rank_price_of callback_data =
     and_then (getitem (split CHR ''_'' callback_data) 1) (\<lambda>part.
     (let target_rank = upper part
      in and_then (lookup RANK_PRICES target_rank) (\<lambda>rank_price.
         Inr (target_rank, rank_price))))"

text \<open>
  \<^verbatim>\<open>handle_rank_upgrade\<close>, with the same \<^verbatim>\<open>try\<close> block around everything: the generic
  \<open>Upgrade_Error\<close> answers an exception of the two statements above and of the
  \<^verbatim>\<open>format_number\<close> calls of the two texts.
\<close>

definition handle_rank_upgrade :: "db \<Rightarrow> datetime \<Rightarrow> sender \<Rightarrow> string \<Rightarrow> reply list \<times> db" where
  "handle_rank_upgrade d now user callback_data =
     (case rank_price_of callback_data of
        Inl e \<Rightarrow> ([Upgrade_Error], d)
      | Inr (target_rank, rank_price) \<Rightarrow>
          (let (user_data, d1) = get_or_create_user d now (sender_id user) None None
           in if coins user_data < rank_price
              then (case first_error [format_number_error rank_price,
                                      format_number_error (coins user_data)] of
                      Some e \<Rightarrow> ([Upgrade_Error], d1)
                    | None \<Rightarrow> ([Insufficient_Funds target_rank rank_price (coins user_data)], d1))
              else (let new_coins = coins user_data - rank_price;
                        d2 = update_user d1 (sender_id user)
                               (\<lambda>row. row\<lparr>coins := new_coins, rank := target_rank\<rparr>);
                        d3 = log_transaction d2 now (sender_id user) ''rank_upgrade''
                               (- rank_price) (''Upgraded to '' @ target_rank)
                    in case first_error [format_number_error rank_price,
                                         format_number_error new_coins] of
                         Some e \<Rightarrow> ([Upgrade_Error], d3)
                       | None \<Rightarrow> ([Upgrade_Success target_rank rank_price new_coins], d3))))"

text \<open>
  The callback data of the upgrade buttons, as \<^verbatim>\<open>shop_command\<close> builds it for a key
  \<open>rank\<close> of \<^verbatim>\<open>RANK_PRICES\<close>: \<^verbatim>\<open>f"upgrade_{rank.lower()}"\<close>; and of the buy buttons:
  \<^verbatim>\<open>f"buy_{index}"\<close> with the position of the item in \<^verbatim>\<open>SHOP_ITEMS\<close>.
\<close>

definition lower_char :: "char \<Rightarrow> char" where
  "lower_char c =
     (let k = (of_char c :: int) in if 65 \<le> k \<and> k \<le> 90 then char_of (k + 32) else c)"

definition upgrade_callback_data :: "string \<Rightarrow> string" where
  "upgrade_callback_data rank_name = ''upgrade_'' @ map lower_char rank_name"

definition buy_callback_data :: "int \<Rightarrow> string" where
  "buy_callback_data index = ''buy_'' @ decimal index"

section \<open>Example values\<close>

text \<open>
  A clock reading, a sender and stores with a single user, for running the handlers on
  concrete inputs: the user with id 1, with the given XP, coins, last claim and streak.
\<close>

definition example_now :: datetime where
  "example_now = \<lparr>day = 738000, second_of_day = 36000, microsecond = 0\<rparr>"

definition example_sender :: sender where
  "example_sender = \<lparr>sender_id = 1, is_bot = False, sender_first_name = ''Ann''\<rparr>"

definition example_user :: "int \<Rightarrow> int \<Rightarrow> datetime option \<Rightarrow> int \<Rightarrow> user" where
  "example_user points balance claimed streak =
     \<lparr>user_id = 1, username = None, first_name = None, xp = points, level = 1,
      coins = balance, rank = ''Newbie'', last_daily = claimed, daily_streak = streak,
      total_messages = 7, join_date = example_now\<lparr>day := 737000\<rparr>,
      last_active = example_now\<lparr>day := 737999\<rparr>\<rparr>"

definition example_db :: "user \<Rightarrow> db" where
  "example_db row = \<lparr>users = Map.empty(user_id row \<mapsto> row), transactions = [], level_ups = []\<rparr>"

section \<open>Properties of the level calculator\<close>

text \<open>
  Rounding to a double is exact below \<open>2 ^ 53\<close> and loses less than a sixteenth of the
  value above. So a successful scaling never shrinks a positive threshold, it enlarges
  every threshold from 2 on, its result is below \<open>2 ^ 1024\<close>, and it is the exact
  \<open>3 * r div 2\<close> as long as \<open>3 * r < 2 ^ 53\<close>.
\<close>

lemma bit_length_bounds:
  "0 < n \<Longrightarrow> 2 ^ (bit_length n - 1) \<le> n \<and> n < 2 ^ bit_length n"
proof (induction n rule: bit_length.induct)
  case (1 n)
  show ?case
  proof (cases "n div 2 = 0")
    case True
    with "1.prems" have "n = 1" by presburger
    have "bit_length 1 = 1"
      by (simp add: bit_length.simps [of 1] bit_length.simps [of 0])
    with \<open>n = 1\<close> show ?thesis by simp
  next
    case False
    with "1.prems" have pos: "0 < n div 2" by presburger
    from "1.IH" "1.prems" pos
    have IH: "2 ^ (bit_length (n div 2) - 1) \<le> n div 2" "n div 2 < 2 ^ bit_length (n div 2)"
      by simp_all
    have len: "bit_length n = Suc (bit_length (n div 2))"
      using "1.prems" by (simp add: bit_length.simps [of n])
    have "0 < bit_length (n div 2)"
      using pos by (simp add: bit_length.simps [of "n div 2"])
    then obtain k where k: "bit_length (n div 2) = Suc k"
      by (cases "bit_length (n div 2)") simp_all
    from IH show ?thesis
      unfolding len k by simp presburger
  qed
qed

lemma bit_length_small: "0 \<le> n \<Longrightarrow> n < 2 ^ 53 \<Longrightarrow> bit_length n \<le> 53"
proof (rule ccontr)
  assume n: "0 \<le> n" "n < 2 ^ 53" and "\<not> bit_length n \<le> 53"
  then have big: "54 \<le> bit_length n" by simp
  then have "0 < n" using n(1) by (cases "n = 0") (simp_all add: bit_length.simps [of 0])
  then have "2 ^ (bit_length n - 1) \<le> n" using bit_length_bounds by blast
  moreover have "(2::int) ^ 53 \<le> 2 ^ (bit_length n - 1)"
    using big by (intro power_increasing) simp_all
  ultimately show False using n(2) by linarith
qed

lemma nearest_double_exact: "0 \<le> n \<Longrightarrow> n < 2 ^ 53 \<Longrightarrow> nearest_double n = n"
  by (simp add: nearest_double_def bit_length_small)

lemma nearest_double_lower: "0 \<le> n \<Longrightarrow> 15 * n \<le> 16 * nearest_double n"
proof (cases "bit_length n \<le> 53")
  case True
  assume "0 \<le> n"
  with True show ?thesis by (simp add: nearest_double_def)
next
  case False
  assume "0 \<le> n"
  with False have pos: "0 < n" by (cases "n = 0") (simp_all add: bit_length.simps [of 0])
  define k where "k = bit_length n - 53"
  define ulp :: int where "ulp = 2 ^ k"
  have kpos: "0 < k" using False by (simp add: k_def)
  have len: "bit_length n - 1 = k + 52" using False by (simp add: k_def)
  have "2 ^ (k + 52) \<le> n" using bit_length_bounds [OF pos] len by simp
  then have low: "2 ^ 52 * ulp \<le> n" by (simp add: ulp_def power_add mult.commute)
  have upos: "0 < ulp" by (simp add: ulp_def)
  have rest: "0 \<le> n mod ulp" "n mod ulp < ulp" using upos by simp_all
  have split: "n = (n div ulp) * ulp + n mod ulp" by simp
  have ge: "(n div ulp) * ulp \<le> nearest_double n"
    using False upos by (simp add: nearest_double_def Let_def k_def [symmetric] ulp_def [symmetric])
  have "16 * (n mod ulp) \<le> 16 * ulp" using rest by simp
  also have "16 * ulp \<le> 2 ^ 52 * ulp" using upos by simp
  finally have "16 * (n mod ulp) \<le> 2 ^ 52 * ulp" .
  with low split ge show ?thesis by linarith
qed

lemma scale_required_error: "scale_required r = Inl e \<Longrightarrow> e = OverflowError"
  by (auto simp: scale_required_def Let_def split: if_splits)

lemma scale_required_bound:
  assumes "0 \<le> r" and "scale_required r = Inr r'"
  shows "r' < 2 ^ 1024"
  using assms by (auto simp: scale_required_def Let_def split: if_splits)

lemma scale_required_grows:
  assumes "0 < r" and "scale_required r = Inr r'"
  shows "r \<le> r'" and "2 \<le> r \<Longrightarrow> r < r'"
proof -
  define f where "f = nearest_double r"
  define p where "p = nearest_double (3 * f)"
  have r': "r' = p div 2"
    using assms by (auto simp: scale_required_def Let_def f_def p_def split: if_splits)
  have f: "15 * r \<le> 16 * f"
    using nearest_double_lower [of r] assms(1) by (simp add: f_def)
  then have "0 \<le> 3 * f" using assms(1) by linarith
  then have p: "15 * (3 * f) \<le> 16 * p"
    unfolding p_def by (rule nearest_double_lower)
  from f p have "675 * r \<le> 256 * p" by linarith
  then show "r \<le> r'" "2 \<le> r \<Longrightarrow> r < r'"
    using assms(1) unfolding r' by linarith+
qed

lemma scale_required_exact:
  assumes "0 \<le> r" and "3 * r < 2 ^ 53"
  shows "scale_required r = Inr (3 * r div 2)"
proof -
  have "r < 2 ^ 53" using assms by linarith
  then have "nearest_double r = r" using assms(1) by (simp add: nearest_double_exact)
  moreover have "nearest_double (3 * r) = 3 * r" using assms by (simp add: nearest_double_exact)
  ultimately show ?thesis using assms by (simp add: scale_required_def)
qed

text \<open>
  The thresholds as a sequence: \<open>run\<close> can be unfolded at the end as well as at the
  front, its runs are prefixes of one another, and their sums grow.
\<close>

lemma run_Suc:
  "run r (Suc n) =
     (case run r n of
        None \<Rightarrow> None
      | Some (s, c) \<Rightarrow>
          (case scale_required c of Inl e \<Rightarrow> None | Inr c' \<Rightarrow> Some (s + c, c')))"
proof (induction n arbitrary: r)
  case 0
  show ?case by (simp split: sum.splits)
next
  case (Suc n)
  show ?case
  proof (cases "scale_required r")
    case (Inl e)
    then show ?thesis by simp
  next
    case (Inr r')
    have "run r (Suc (Suc n)) =
        (case run r' (Suc n) of None \<Rightarrow> None | Some (s, c) \<Rightarrow> Some (r + s, c))"
      using Inr by simp
    also have "\<dots> = (case run r (Suc n) of
        None \<Rightarrow> None
      | Some (s, c) \<Rightarrow>
          (case scale_required c of Inl e \<Rightarrow> None | Inr c' \<Rightarrow> Some (s + c, c')))"
      unfolding Suc.IH [of r'] using Inr
      by (simp split: option.splits sum.splits)
    finally show ?thesis .
  qed
qed







lemma level_loop_cases:
  assumes "0 < r" and "0 \<le> x"
  shows "(\<exists>n s c. run r n = Some (s, c) \<and> s \<le> x \<and> x < s + c \<and>
            calculate_level_loop x l r = Some (Inr (l + int n))) \<or>
         (\<exists>n s c. run r n = Some (s, c) \<and> s + c \<le> x \<and> run r (Suc n) = None \<and>
            calculate_level_loop x l r = Some (Inl OverflowError))"
  using assms
proof (induction "nat x" arbitrary: x l r rule: less_induct)
  case less
  show ?case
  proof (cases "r \<le> x")
    case False
    then have "calculate_level_loop x l r = Some (Inr (l + int 0))"
      by (simp add: calculate_level_loop.simps [of x l r])
    moreover have "run r 0 = Some (0, r)" by simp
    ultimately show ?thesis using False less.prems(2) by (intro disjI1 exI conjI) auto
  next
    case True
    show ?thesis
    proof (cases "scale_required r")
      case (Inl e)
      then have "calculate_level_loop x l r = Some (Inl OverflowError)"
        using True scale_required_error [OF Inl]
        by (simp add: calculate_level_loop.simps [of x l r])
      moreover have "run r 0 = Some (0, r)" "run r (Suc 0) = None"
        using Inl by simp_all
      ultimately show ?thesis using True by (intro disjI2 exI conjI) auto
    next
      case (Inr r')
      have r': "0 < r'"
        using scale_required_grows(1) [OF less.prems(1) Inr] less.prems(1) by simp
      have smaller: "nat (x - r) < nat x" "0 \<le> x - r"
        using True less.prems by simp_all
      have unfold: "calculate_level_loop x l r = calculate_level_loop (x - r) (l + 1) r'"
        using True Inr by (simp add: calculate_level_loop.simps [of x l r])
      from less.hyps [OF smaller(1) r' smaller(2), of "l + 1"]
      show ?thesis
      proof (elim disjE exE conjE)
        fix n s c
        assume "run r' n = Some (s, c)" "s \<le> x - r" "x - r < s + c"
          "calculate_level_loop (x - r) (l + 1) r' = Some (Inr (l + 1 + int n))"
        then have "run r (Suc n) = Some (r + s, c)" "r + s \<le> x" "x < r + s + c"
          "calculate_level_loop x l r = Some (Inr (l + int (Suc n)))"
          using Inr unfold by simp_all
        then show ?thesis by blast
      next
        fix n s c
        assume "run r' n = Some (s, c)" "s + c \<le> x - r" "run r' (Suc n) = None"
          "calculate_level_loop (x - r) (l + 1) r' = Some (Inl OverflowError)"
        then have "run r (Suc n) = Some (r + s, c)" "r + s + c \<le> x"
          "run r (Suc (Suc n)) = None"
          "calculate_level_loop x l r = Some (Inl OverflowError)"
          using Inr unfold by (simp_all del: run.simps(2) add: run.simps(2) [of r])
        then show ?thesis by blast
      qed
    qed
  qed
qed

text \<open>
  From 100 on the thresholds grow strictly and stay below \<open>2 ^ 1024\<close>, so there are fewer
  than \<open>2 ^ 1024\<close> of them and their sum is below \<open>2 ^ 2048\<close>: on more XP than that,
  \<^verbatim>\<open>calculate_level\<close> raises.
\<close>

lemma run_bounds:
  assumes "2 \<le> r" and "r < 2 ^ 1024" and "run r n = Some (s, c)"
  shows "r + int n \<le> c \<and> c < 2 ^ 1024 \<and> s \<le> int n * 2 ^ 1024"
  using assms(3)
proof (induction n arbitrary: s c)
  case 0
  then show ?case using assms(2) by simp
next
  case (Suc n)
  from Suc.prems obtain s0 c0 where prev: "run r n = Some (s0, c0)"
    and step: "scale_required c0 = Inr c" and s: "s = s0 + c0"
    unfolding run_Suc by (auto split: option.splits sum.splits)
  from Suc.IH [OF prev] have IH: "r + int n \<le> c0" "c0 < 2 ^ 1024" "s0 \<le> int n * 2 ^ 1024"
    by simp_all
  have c0: "2 \<le> c0" using IH(1) assms(1) by simp
  then have "c0 < c" using scale_required_grows(2) [OF _ step] by simp
  moreover have "c < 2 ^ 1024" using scale_required_bound [OF _ step] c0 by simp
  moreover have "s \<le> int (Suc n) * 2 ^ 1024"
    using IH(2,3) s by (simp add: algebra_simps)
  ultimately show ?case using IH(1) by simp
qed

lemma calculate_level_below_base: "x < BASE_XP \<Longrightarrow> calculate_level x = Some (Inr 1)"
  unfolding calculate_level_def by (simp add: calculate_level_loop.simps [of x 1 BASE_XP])

lemma calculate_level_cases:
  assumes "0 \<le> x"
  shows "(\<exists>n s c. run BASE_XP n = Some (s, c) \<and> s \<le> x \<and> x < s + c \<and>
            calculate_level x = Some (Inr (1 + int n))) \<or>
         (\<exists>n s c. run BASE_XP n = Some (s, c) \<and> s + c \<le> x \<and> run BASE_XP (Suc n) = None \<and>
            calculate_level x = Some (Inl OverflowError))"
  unfolding calculate_level_def
  by (rule level_loop_cases) (use assms in \<open>simp_all add: BASE_XP_def\<close>)

lemma calculate_level_returns:
  "calculate_level x = Some (Inl OverflowError) \<or> (\<exists>l. calculate_level x = Some (Inr l) \<and> 1 \<le> l)"
proof (cases "0 \<le> x")
  case True
  from calculate_level_cases [OF True] show ?thesis by auto
next
  case False
  then have "x < BASE_XP" by (simp add: BASE_XP_def)
  then show ?thesis by (simp add: calculate_level_below_base)
qed

lemma calculate_level_run:
  assumes "0 \<le> x" and "calculate_level x = Some (Inr l)"
  obtains n s c where "run BASE_XP n = Some (s, c)" and "s \<le> x" and "x < s + c"
    and "l = 1 + int n"
  using calculate_level_cases [OF assms(1)] assms(2) by auto



lemma calculate_level_overflow:
  assumes "2 ^ 2048 \<le> x"
  shows "calculate_level x = Some (Inl OverflowError)"
proof (rule ccontr)
  assume no: "calculate_level x \<noteq> Some (Inl OverflowError)"
  have "(0::int) \<le> 2 ^ 2048" by simp
  with assms have x: "0 \<le> x" by linarith
  from calculate_level_cases [OF x] no obtain n s c where
    run: "run BASE_XP n = Some (s, c)" and below: "x < s + c"
    by auto
  have "BASE_XP + int n \<le> c \<and> c < 2 ^ 1024 \<and> s \<le> int n * 2 ^ 1024"
    by (rule run_bounds [OF _ _ run]) (simp_all add: BASE_XP_def)
  then have c: "c < 2 ^ 1024" and s: "s \<le> int n * 2 ^ 1024" and n: "int n + 1 \<le> 2 ^ 1024"
    by (simp_all add: BASE_XP_def)
  have "s + c < (int n + 1) * 2 ^ 1024"
    using c s by (simp add: algebra_simps)
  also have "\<dots> \<le> 2 ^ 1024 * 2 ^ 1024"
    using n by (intro mult_right_mono) simp_all
  also have "\<dots> = (2::int) ^ 2048"
    by (simp add: power_add [symmetric])
  finally show False using below assms by linarith
qed




text \<open>The first thresholds: 100, 150, 225, 337.\<close>

lemma scale_required_100: "scale_required 100 = Inr 150"
  by (simp add: scale_required_exact)








section \<open>Properties of the store operations\<close>

lemma get_or_create_user_existing:
  "users d uid = Some u \<Longrightarrow> get_or_create_user d now uid uname fname = (u, d)"
  by (simp add: get_or_create_user_def)

lemma get_or_create_user_stored:
  "get_or_create_user d now uid uname fname = (u, d1) \<Longrightarrow> users d1 uid = Some u"
  by (auto simp: get_or_create_user_def Let_def split: option.splits)

lemma get_or_create_user_new:
  "users d uid = None \<Longrightarrow> get_or_create_user d now uid uname fname = (u, d1) \<Longrightarrow>
     xp u = 0 \<and> level u = 1 \<and> coins u = 100 \<and> total_messages u = 0"
  by (auto simp: get_or_create_user_def Let_def)

lemma update_user_existing:
  "users d uid = Some u \<Longrightarrow> update_user d uid changes = d\<lparr>users := (users d)(uid \<mapsto> changes u)\<rparr>"
  by (simp add: update_user_def)

section \<open>Properties of the message reward\<close>

text \<open>
  A level that \<^verbatim>\<open>calculate_level\<close> returns is at most \<open>2 ^ 1024\<close>, so formatting it
  cannot raise.
\<close>

lemma calculate_level_bound:
  assumes "calculate_level x = Some (Inr l)"
  shows "1 \<le> l \<and> l \<le> 2 ^ 1024"
proof (cases "0 \<le> x")
  case True
  from True assms obtain n s c where run: "run BASE_XP n = Some (s, c)" and l: "l = 1 + int n"
    by (rule calculate_level_run)
  have "BASE_XP + int n \<le> c \<and> c < 2 ^ 1024 \<and> s \<le> int n * 2 ^ 1024"
    by (rule run_bounds [OF _ _ run]) (simp_all add: BASE_XP_def)
  then show ?thesis by (simp add: l BASE_XP_def)
next
  case False
  then have "calculate_level x = Some (Inr 1)"
    by (simp add: calculate_level_below_base BASE_XP_def)
  with assms show ?thesis by simp
qed

lemma str_error_small:
  assumes "\<bar>i\<bar> \<le> 2 ^ 1024"
  shows "str_error i = None"
proof -
  have "(2::int) ^ 1024 < 10 ^ 1024"
    by (rule power_strict_mono) simp_all
  also have "(10::int) ^ 1024 \<le> 10 ^ 4300"
    by (rule power_increasing) simp_all
  finally have "(2::int) ^ 1024 < 10 ^ 4300" .
  with assms have "\<bar>i\<bar> < 10 ^ 4300"
    by (rule le_less_trans)
  then have "\<not> 10 ^ 4300 \<le> \<bar>i\<bar>"
    by (simp only: not_le)
  then show ?thesis
    unfolding str_error_def by (rule if_not_P)
qed

lemma format_number_error_small:
  assumes "0 \<le> num" and "num \<le> 2 ^ 1024"
  shows "format_number_error num = None"
proof (cases "num \<ge> 1000000000")
  case True
  have "(2::int) ^ 1024 < 1000000000 * (2 ^ 1024 - 2 ^ 970)"
    by simp
  with assms(2) have "\<not> num \<ge> 1000000000 * (2 ^ 1024 - 2 ^ 970)"
    by linarith
  with True show ?thesis
    unfolding format_number_error_def by (simp only: if_True if_False)
next
  case False
  have "\<bar>num\<bar> \<le> 2 ^ 1024"
    using assms by simp
  then have "str_error num = None"
    by (rule str_error_small)
  with False show ?thesis
    unfolding format_number_error_def by (simp only: if_False if_cancel)
qed

lemma str_error_level:
  assumes "calculate_level x = Some (Inr l)"
  shows "str_error l = None"
proof -
  from calculate_level_bound [OF assms] have "\<bar>l\<bar> \<le> 2 ^ 1024"
    by simp
  then show ?thesis
    by (rule str_error_small)
qed

text \<open>
  When \<^verbatim>\<open>calculate_level\<close> raises on the new XP, \<^verbatim>\<open>update_user_xp\<close> returns \<open>False\<close> and a
  qualifying message leaves the row of the sender as it was.
\<close>

lemma handle_message_overflow:
  assumes "chat_type = ''group'' \<or> chat_type = ''supergroup''"
    and "\<not> is_bot author"
    and "get_or_create_user d now (sender_id author) None None = (u, d0)"
    and "calculate_level (xp u + XP_PER_MESSAGE) = Some (Inl e)"
  shows "handle_message d now author chat_type = Some (Inr [], d0)"
proof -
  have "update_user_xp d now (sender_id author) XP_PER_MESSAGE COINS_PER_MESSAGE =
      Some (False, d0)"
    using assms(3,4) by (simp add: update_user_xp_def)
  then show ?thesis
    using assms(1,2) by (auto simp: handle_message_def)
qed

text \<open>
  \<^verbatim>\<open>update_user_xp\<close> when \<^verbatim>\<open>calculate_level\<close> returns the level \<open>l'\<close> of the new XP, and
  \<^verbatim>\<open>handle_message\<close> for a qualifying message.
\<close>

lemma update_user_xp_level:
  assumes "get_or_create_user d now uid None None = (u, d0)"
    and "calculate_level (xp u + xp_gain) = Some (Inr l')"
  shows "update_user_xp d now uid xp_gain coins_gain =
           Some (level u < l',
                 if level u < l'
                 then log_level_up
                        (d0\<lparr>users := (users d0)(uid \<mapsto>
                           u\<lparr>xp := xp u + xp_gain, level := l', coins := coins u + coins_gain,
                             total_messages := total_messages u + 1, last_active := now\<rparr>)\<rparr>)
                        now uid (level u) l'
                 else d0\<lparr>users := (users d0)(uid \<mapsto>
                        u\<lparr>xp := xp u + xp_gain, level := l', coins := coins u + coins_gain,
                          total_messages := total_messages u + 1, last_active := now\<rparr>)\<rparr>)"
proof -
  have "users d0 uid = Some u"
    using assms(1) by (rule get_or_create_user_stored)
  with assms show ?thesis
    by (simp add: update_user_xp_def update_user_existing)
qed

lemma handle_message_group:
  assumes "chat_type = ''group'' \<or> chat_type = ''supergroup''"
    and "\<not> is_bot author"
  shows "handle_message d now author chat_type =
      (case update_user_xp d now (sender_id author) XP_PER_MESSAGE COINS_PER_MESSAGE of
         None \<Rightarrow> None
       | Some (level_up, d1) \<Rightarrow>
           if level_up
           then (let (user_data, d2) = get_or_create_user d1 now (sender_id author) None None
                 in case first_error [str_error (level user_data),
                                      format_number_error (xp user_data),
                                      format_number_error (coins user_data)] of
                      Some e \<Rightarrow> Some (Inl e, d2)
                    | None \<Rightarrow>
                        (let d3 = update_user d2 (sender_id author)
                                    (\<lambda>row. row\<lparr>coins := coins user_data + 50\<rparr>)
                         in Some (Inr [Level_Up_Notice (sender_first_name author)
                                         (level user_data) (xp user_data)
                                         (coins user_data)], d3)))
           else Some (Inr [], d1))"
  using assms by (auto simp: handle_message_def)

text \<open>
  The effect of a qualifying message on the sender's row \<open>u\<close> (the row found or created by
  \<open>get_or_create_user\<close>), where \<open>l'\<close> is the level of the new XP and, when the level
  rises, the numbers of the level-up notice can be formatted.
\<close>

lemma handle_message_qualifying:
  assumes "chat_type = ''group'' \<or> chat_type = ''supergroup''"
    and "\<not> is_bot author"
    and "get_or_create_user d now (sender_id author) None None = (u, d0)"
    and "calculate_level (xp u + XP_PER_MESSAGE) = Some (Inr l')"
    and "level u < l' \<Longrightarrow> format_number_error (xp u + XP_PER_MESSAGE) = None"
    and "level u < l' \<Longrightarrow> format_number_error (coins u + COINS_PER_MESSAGE) = None"
  shows "\<exists>replies d'.
           handle_message d now author chat_type = Some (Inr replies, d') \<and>
           users d' (sender_id author) =
             Some (u\<lparr>xp := xp u + XP_PER_MESSAGE, level := l',
                     coins := coins u + COINS_PER_MESSAGE + (if level u < l' then 50 else 0),
                     total_messages := total_messages u + 1, last_active := now\<rparr>)"
proof -
  define u2 where "u2 = u\<lparr>xp := xp u + XP_PER_MESSAGE, level := l',
    coins := coins u + COINS_PER_MESSAGE, total_messages := total_messages u + 1,
    last_active := now\<rparr>"
  define d2 where "d2 = d0\<lparr>users := (users d0)(sender_id author \<mapsto> u2)\<rparr>"
  have step: "update_user_xp d now (sender_id author) XP_PER_MESSAGE COINS_PER_MESSAGE =
      Some (level u < l',
            if level u < l' then log_level_up d2 now (sender_id author) (level u) l' else d2)"
    unfolding d2_def u2_def by (rule update_user_xp_level [OF assms(3,4)])
  note qualifies = handle_message_group [OF assms(1,2)]
  show ?thesis
  proof (cases "level u < l'")
    case True
    have row: "users (log_level_up d2 now (sender_id author) (level u) l') (sender_id author) =
        Some u2"
      by (simp add: log_level_up_def d2_def)
    have notice: "first_error [str_error (level u2), format_number_error (xp u2),
        format_number_error (coins u2)] = None"
      using assms(5) [OF True] assms(6) [OF True] str_error_level [OF assms(4)]
      by (simp add: u2_def)
    have "handle_message d now author chat_type =
        Some (Inr [Level_Up_Notice (sender_first_name author) (level u2) (xp u2) (coins u2)],
              update_user (log_level_up d2 now (sender_id author) (level u) l')
                (sender_id author) (\<lambda>row. row\<lparr>coins := coins u2 + 50\<rparr>))"
      using True by (simp add: qualifies step get_or_create_user_existing [OF row] notice)
    moreover have "users (update_user (log_level_up d2 now (sender_id author) (level u) l')
        (sender_id author) (\<lambda>row. row\<lparr>coins := coins u2 + 50\<rparr>)) (sender_id author) =
        Some (u2\<lparr>coins := coins u2 + 50\<rparr>)"
      by (simp add: update_user_existing [OF row])
    ultimately show ?thesis
      using True by (simp add: u2_def)
  next
    case False
    have "handle_message d now author chat_type = Some (Inr [], d2)"
      using False by (simp add: qualifies step)
    moreover have "users d2 (sender_id author) = Some u2"
      by (simp add: d2_def)
    ultimately show ?thesis
      using False by (simp add: u2_def)
  qed
qed

text \<open>
  When the level rises and a number of the notice cannot be formatted, the exception
  leaves the handler before the bonus is written: the row has the grant of the message
  and the new level, and no bonus.
\<close>

lemma handle_message_notice_error:
  assumes "chat_type = ''group'' \<or> chat_type = ''supergroup''"
    and "\<not> is_bot author"
    and "get_or_create_user d now (sender_id author) None None = (u, d0)"
    and "calculate_level (xp u + XP_PER_MESSAGE) = Some (Inr l')"
    and "level u < l'"
    and "first_error [str_error l', format_number_error (xp u + XP_PER_MESSAGE),
           format_number_error (coins u + COINS_PER_MESSAGE)] = Some e"
  shows "\<exists>d'. handle_message d now author chat_type = Some (Inl e, d') \<and>
              users d' (sender_id author) =
                Some (u\<lparr>xp := xp u + XP_PER_MESSAGE, level := l',
                        coins := coins u + COINS_PER_MESSAGE,
                        total_messages := total_messages u + 1, last_active := now\<rparr>)"
proof -
  define u2 where "u2 = u\<lparr>xp := xp u + XP_PER_MESSAGE, level := l',
    coins := coins u + COINS_PER_MESSAGE, total_messages := total_messages u + 1,
    last_active := now\<rparr>"
  define d2 where "d2 = d0\<lparr>users := (users d0)(sender_id author \<mapsto> u2)\<rparr>"
  have step: "update_user_xp d now (sender_id author) XP_PER_MESSAGE COINS_PER_MESSAGE =
      Some (True, log_level_up d2 now (sender_id author) (level u) l')"
    using update_user_xp_level [OF assms(3,4), of COINS_PER_MESSAGE] assms(5)
    by (simp add: d2_def u2_def)
  have row: "users (log_level_up d2 now (sender_id author) (level u) l') (sender_id author) =
      Some u2"
    by (simp add: log_level_up_def d2_def)
  have notice: "first_error [str_error (level u2), format_number_error (xp u2),
      format_number_error (coins u2)] = Some e"
    using assms(6) by (simp add: u2_def)
  have "handle_message d now author chat_type =
      Some (Inl e, log_level_up d2 now (sender_id author) (level u) l')"
    by (simp add: handle_message_group [OF assms(1,2)] step
        get_or_create_user_existing [OF row] notice)
  with row show ?thesis
    unfolding u2_def by blast
qed

text \<open>
  The stored level is the level of the stored XP in a row that \<open>get_or_create_user\<close>
  creates, and \<^verbatim>\<open>update_user_xp\<close> keeps it so: it writes the XP together with its level,
  or nothing.
\<close>

lemma new_user_level:
  assumes "users d uid = None"
    and "get_or_create_user d now uid uname fname = (u, d1)"
  shows "calculate_level (xp u) = Some (Inr (level u))"
  using get_or_create_user_new [OF assms]
  by (simp add: calculate_level_below_base BASE_XP_def)

lemma update_user_xp_keeps_level:
  assumes "get_or_create_user d now uid None None = (u, d0)"
    and "calculate_level (xp u) = Some (Inr (level u))"
  shows "\<exists>level_up d' u'.
           update_user_xp d now uid xp_gain coins_gain = Some (level_up, d') \<and>
           users d' uid = Some u' \<and> calculate_level (xp u') = Some (Inr (level u'))"
proof -
  have stored: "users d0 uid = Some u"
    using assms(1) by (rule get_or_create_user_stored)
  from calculate_level_returns [of "xp u + xp_gain"] show ?thesis
  proof (elim disjE exE conjE)
    assume "calculate_level (xp u + xp_gain) = Some (Inl OverflowError)"
    then have "update_user_xp d now uid xp_gain coins_gain = Some (False, d0)"
      using assms(1) by (simp add: update_user_xp_def)
    with assms(2) stored show ?thesis
      by blast
  next
    fix l
    assume l: "calculate_level (xp u + xp_gain) = Some (Inr l)"
    then show ?thesis
      using assms(1) stored
      by (cases "level u < l")
        (auto simp: update_user_xp_def update_user_existing log_level_up_def Let_def)
  qed
qed

text \<open>
  Claim C6, as the code has it. A message in a group or supergroup chat whose author is
  not a bot adds exactly 1 to the author's \<open>total_messages\<close>, \<open>XP_PER_MESSAGE\<close> to \<open>xp\<close>
  and \<open>COINS_PER_MESSAGE\<close> to \<open>coins\<close>, and 50 coins more, once, when the level \<open>l'\<close> of
  the new XP exceeds the level of the old XP. This holds provided that
  \<^verbatim>\<open>calculate_level\<close> returns on the new XP and that, when the level rises,
  \<^verbatim>\<open>format_number\<close> does not raise on the new XP and coins.
  \<open>u\<close> is the author's row as \<open>get_or_create_user\<close> finds or creates it, and its stored
  level is the level of its XP.
\<close>

theorem message_reward:
  assumes "chat_type = ''group'' \<or> chat_type = ''supergroup''"
    and "\<not> is_bot author"
    and "get_or_create_user d now (sender_id author) None None = (u, d0)"
    and "calculate_level (xp u) = Some (Inr (level u))"
    and "calculate_level (xp u + XP_PER_MESSAGE) = Some (Inr l')"
    and "level u < l' \<Longrightarrow> format_number_error (xp u + XP_PER_MESSAGE) = None"
    and "level u < l' \<Longrightarrow> format_number_error (coins u + COINS_PER_MESSAGE) = None"
  shows "\<exists>replies d' u'.
           handle_message d now author chat_type = Some (Inr replies, d') \<and>
           users d' (sender_id author) = Some u' \<and>
           total_messages u' = total_messages u + 1 \<and>
           xp u' = xp u + XP_PER_MESSAGE \<and>
           coins u' = coins u + COINS_PER_MESSAGE + (if level u < l' then 50 else 0)"
  using handle_message_qualifying [OF assms(1,2,3,5,6,7)] by auto

theorem message_reward_witness:
  "(''group'' = ''group'' \<or> ''group'' = ''supergroup'') \<and>
   \<not> is_bot example_sender \<and>
   get_or_create_user (example_db (example_user 98 10 None 0)) example_now
       (sender_id example_sender) None None =
     (example_user 98 10 None 0, example_db (example_user 98 10 None 0)) \<and>
   calculate_level (xp (example_user 98 10 None 0)) =
     Some (Inr (level (example_user 98 10 None 0))) \<and>
   calculate_level (xp (example_user 98 10 None 0) + XP_PER_MESSAGE) = Some (Inr 2) \<and>
   format_number_error (xp (example_user 98 10 None 0) + XP_PER_MESSAGE) = None \<and>
   format_number_error (coins (example_user 98 10 None 0) + COINS_PER_MESSAGE) = None \<and>
   (\<exists>replies d' u'.
      handle_message (example_db (example_user 98 10 None 0)) example_now example_sender ''group'' =
        Some (Inr replies, d') \<and>
      users d' (sender_id example_sender) = Some u' \<and>
      total_messages u' = 8 \<and> xp u' = 103 \<and> coins u' = 62)"
proof -
  have h1: "''group'' = ''group'' \<or> ''group'' = ''supergroup''" by simp
  have h2: "\<not> is_bot example_sender" by (simp add: example_sender_def)
  have h3: "get_or_create_user (example_db (example_user 98 10 None 0)) example_now
       (sender_id example_sender) None None =
     (example_user 98 10 None 0, example_db (example_user 98 10 None 0))"
    by (simp add: get_or_create_user_def example_db_def example_user_def example_sender_def)
  have h4: "calculate_level (xp (example_user 98 10 None 0)) =
      Some (Inr (level (example_user 98 10 None 0)))"
    by (simp add: example_user_def calculate_level_below_base BASE_XP_def)
  have h5: "calculate_level (xp (example_user 98 10 None 0) + XP_PER_MESSAGE) = Some (Inr 2)"
    by (simp add: example_user_def XP_PER_MESSAGE_def calculate_level_def BASE_XP_def
        scale_required_100 calculate_level_loop.simps [of 103 1 100]
        calculate_level_loop.simps [of 3 2 150])
  have h6: "format_number_error (xp (example_user 98 10 None 0) + XP_PER_MESSAGE) = None"
    by (rule format_number_error_small) (simp_all add: example_user_def XP_PER_MESSAGE_def)
  have h7: "format_number_error (coins (example_user 98 10 None 0) + COINS_PER_MESSAGE) = None"
    by (rule format_number_error_small) (simp_all add: example_user_def COINS_PER_MESSAGE_def)
  from message_reward [OF h1 h2 h3 h4 h5 h6 h7] obtain replies d' u' where
    "handle_message (example_db (example_user 98 10 None 0)) example_now example_sender
       ''group'' = Some (Inr replies, d')"
    "users d' (sender_id example_sender) = Some u'"
    "total_messages u' = total_messages (example_user 98 10 None 0) + 1"
    "xp u' = xp (example_user 98 10 None 0) + XP_PER_MESSAGE"
    "coins u' = coins (example_user 98 10 None 0) + COINS_PER_MESSAGE +
       (if level (example_user 98 10 None 0) < 2 then 50 else 0)"
    by blast
  then have "handle_message (example_db (example_user 98 10 None 0)) example_now
      example_sender ''group'' = Some (Inr replies, d') \<and>
      users d' (sender_id example_sender) = Some u' \<and>
      total_messages u' = 8 \<and> xp u' = 103 \<and> coins u' = 62"
    by (simp add: example_user_def XP_PER_MESSAGE_def COINS_PER_MESSAGE_def)
  with h1 h2 h3 h4 h5 h6 h7 show ?thesis by blast
qed

text \<open>
  The claim as the specification states it, for every qualifying message, fails where
  \<^verbatim>\<open>calculate_level\<close> raises: for the stored user 1 with \<open>2 ^ 2048\<close> XP a message in a
  group is answered by nothing and leaves the row as it was, with 7 messages still.
\<close>

theorem message_reward_overflow:
  "handle_message (example_db (example_user (2 ^ 2048) 10 None 0)) example_now example_sender
       ''group'' =
     Some (Inr [], example_db (example_user (2 ^ 2048) 10 None 0))"
proof -
  have "(2::int) ^ 2048 \<le> 2 ^ 2048 + XP_PER_MESSAGE"
    by (simp add: XP_PER_MESSAGE_def)
  then have "calculate_level (2 ^ 2048 + XP_PER_MESSAGE) = Some (Inl OverflowError)"
    by (rule calculate_level_overflow)
  then have "calculate_level (xp (example_user (2 ^ 2048) 10 None 0) + XP_PER_MESSAGE) =
      Some (Inl OverflowError)"
    by (simp add: example_user_def)
  moreover have "get_or_create_user (example_db (example_user (2 ^ 2048) 10 None 0)) example_now
      (sender_id example_sender) None None =
      (example_user (2 ^ 2048) 10 None 0, example_db (example_user (2 ^ 2048) 10 None 0))"
    by (simp add: get_or_create_user_def example_db_def example_user_def example_sender_def)
  moreover have "\<not> is_bot example_sender"
    by (simp add: example_sender_def)
  ultimately show ?thesis
    by (intro handle_message_overflow) simp_all
qed

section \<open>Properties of the daily reward\<close>

text \<open>
  With the local variable bound to an object whose \<open>id\<close> is the id of a stored row
  \<open>u\<close>, the \<^verbatim>\<open>try\<close> block of \<^verbatim>\<open>check_daily_reward\<close> decides by the four cases of its body.
\<close>

lemma check_daily_reward_try_bound:
  assumes "users d (sender_id s) = Some u"
  shows "check_daily_reward_try d now (Some s) =
           Inr (case last_daily u of
                  None \<Rightarrow> Can_Claim 0
                | Some t \<Rightarrow>
                    if day t = day now
                    then Cannot_Claim ''Already claimed today'' (Some (time_until_next_day now))
                    else if day t = day now - 1 then Can_Claim (daily_streak u + 1)
                    else Can_Claim 1, d)"
  using assms
  by (simp add: check_daily_reward_try_def load_local_def get_or_create_user_existing Let_def
      split: option.splits)

lemma time_until_next_day_not_empty: "time_until_next_day now \<noteq> []"
  by (simp add: time_until_next_day_def Let_def)

text \<open>
  In \<^verbatim>\<open>check_daily_reward\<close> itself the local variable is unbound, on every call: the
  function answers \<^verbatim>\<open>{"can_claim": False, "reason": "Database error"}\<close> and leaves the
  store alone, and \<^verbatim>\<open>daily_command\<close> replies with that reason and grants nothing.
\<close>

lemma check_daily_reward_always:
  "check_daily_reward d now uid = (Cannot_Claim ''Database error'' None, d)"
  by (simp add: check_daily_reward_def check_daily_reward_try_def load_local_def)

lemma daily_command_always:
  "daily_command d now claimant = Some ([Daily_Error ''Database error''], d)"
  by (simp add: daily_command_def check_daily_reward_always)

text \<open>
  Claim C2 says that a user whose \<open>last_daily\<close> is unset may claim, with streak 0. The
  code answers otherwise: for the user 1 with no claim so far, \<open>check_daily_reward\<close>
  returns "cannot claim" with the reason \<open>Database error\<close>.
\<close>

theorem check_daily_reward_first_claim:
  "check_daily_reward (example_db (example_user 0 100 None 0)) example_now 1 =
     (Cannot_Claim ''Database error'' None, example_db (example_user 0 100 None 0))"
  by (simp add: check_daily_reward_def check_daily_reward_try_def load_local_def)

text \<open>
  Claim C3 says that a second claim on the same day is refused together with a non-empty
  \<open>time_left\<close>. The code refuses, but with the reason \<open>Database error\<close> and without the
  key \<open>time_left\<close>: here for the user 1 who claimed at 01:00 of the current day.
\<close>

theorem check_daily_reward_same_day:
  "check_daily_reward
     (example_db (example_user 0 100 (Some (example_now\<lparr>second_of_day := 3600\<rparr>)) 4))
     example_now 1 =
     (Cannot_Claim ''Database error'' None,
      example_db (example_user 0 100 (Some (example_now\<lparr>second_of_day := 3600\<rparr>)) 4))"
  by (simp add: check_daily_reward_def check_daily_reward_try_def load_local_def)

text \<open>
  Claim C4 says that a user who claimed yesterday may claim with streak
  \<open>daily_streak + 1\<close> (and with streak 1 after a longer gap). The code answers "cannot
  claim": here for the user 1 with streak 4 who claimed the day before.
\<close>

theorem check_daily_reward_next_day:
  "check_daily_reward
     (example_db (example_user 0 100 (Some (example_now\<lparr>day := day example_now - 1\<rparr>)) 4))
     example_now 1 =
     (Cannot_Claim ''Database error'' None,
      example_db (example_user 0 100 (Some (example_now\<lparr>day := day example_now - 1\<rparr>)) 4))"
  by (simp add: check_daily_reward_def check_daily_reward_try_def load_local_def)

text \<open>
  The reward step of \<^verbatim>\<open>daily_command\<close> computes the amounts of the specification: when
  it replies with a reward, the reward is
  \<open>DAILY_REWARD_COINS + DAILY_REWARD_COINS * min (streak * 10) 200 div 100\<close> coins and the
  same with \<open>DAILY_REWARD_XP\<close>, and the row of the claimant has received both.
\<close>

lemma daily_command_reward_amounts:
  assumes "get_or_create_user d now (sender_id claimant) None None = (u, d0)"
    and "daily_command_reward d now claimant streak =
           Some ([Daily_Reward total_coins total_xp shown_streak bonus reached], d')"
  shows "total_coins =
           DAILY_REWARD_COINS + (DAILY_REWARD_COINS * min (streak * 10) 200) div 100 \<and>
         total_xp = DAILY_REWARD_XP + (DAILY_REWARD_XP * min (streak * 10) 200) div 100 \<and>
         (\<exists>u'. users d' (sender_id claimant) = Some u' \<and>
               coins u' = coins u + total_coins \<and> xp u' = xp u + total_xp \<and>
               daily_streak u' = streak \<and> last_daily u' = Some now)"
proof -
  have stored: "users d0 (sender_id claimant) = Some u"
    using assms(1) by (rule get_or_create_user_stored)
  show ?thesis
    using assms stored
    by (auto simp: daily_command_reward_def Let_def update_user_existing log_transaction_def
        split: option.splits sum.splits)
qed

text \<open>
  Claim C5 says that the daily reward grants
  \<open>BASE + floor (BASE * min (streak * 10) 200 / 100)\<close> coins and XP, so 150 coins and 75
  XP at streak 5. The code grants nothing: the user 1 with streak 4 who claimed the day
  before sends \<^verbatim>\<open>/daily\<close> (the streak of this claim would be 5) and \<^verbatim>\<open>daily_command\<close>
  replies with the error \<open>Database error\<close>; coins, XP and streak stay as they were.
\<close>

theorem daily_command_grants_nothing:
  "daily_command
     (example_db (example_user 0 100 (Some (example_now\<lparr>day := day example_now - 1\<rparr>)) 4))
     example_now example_sender =
     Some ([Daily_Error ''Database error''],
           example_db (example_user 0 100 (Some (example_now\<lparr>day := day example_now - 1\<rparr>)) 4))"
  by (simp add: daily_command_def check_daily_reward_def check_daily_reward_try_def
      load_local_def)

section \<open>Properties of the shop and of rank upgrades\<close>

text \<open>
  The buy buttons resolve to the five items of the catalogue, in order. Of the three
  upgrade buttons only the one for \<open>VIP\<close> resolves: \<^verbatim>\<open>.upper()\<close> turns \<open>premium\<close> and
  \<open>admin\<close> into \<open>PREMIUM\<close> and \<open>ADMIN\<close>, and the keys of \<^verbatim>\<open>RANK_PRICES\<close> are \<open>Premium\<close>
  and \<open>Admin\<close>. No callback data at all resolves to a rank other than \<open>VIP\<close>.
\<close>

lemma shop_item_of_buttons:
  "map (\<lambda>i. shop_item_of (buy_callback_data i)) [0, 1, 2, 3, 4] = map Inr SHOP_ITEMS"
  by code_simp

lemma rank_price_of_buttons:
  "map (\<lambda>r. rank_price_of (upgrade_callback_data r)) (map fst RANK_PRICES) =
     [Inr (''VIP'', 5000), Inl KeyError, Inl KeyError]"
  by code_simp

lemma rank_price_of_premium_button:
  "rank_price_of (upgrade_callback_data ''Premium'') = Inl KeyError"
  by code_simp

lemma upper_char_not_lower:
  "\<not> (97 \<le> (of_char (upper_char c) :: int) \<and> (of_char (upper_char c) :: int) \<le> 122)"
  by (auto simp: upper_char_def Let_def)

lemma rank_price_of_resolves_VIP_only:
  assumes "rank_price_of callback_data = Inr (target_rank, rank_price)"
  shows "target_rank = ''VIP'' \<and> rank_price = 5000"
proof -
  from assms obtain part where part: "target_rank = upper part"
    and found: "map_of RANK_PRICES (upper part) = Some rank_price"
    by (auto simp: rank_price_of_def and_then_def lookup_def Let_def
        split: sum.splits option.splits)
  have "upper part \<noteq> ''Premium''"
  proof
    assume "upper part = ''Premium''"
    then have "upper_char (part ! 1) = CHR ''r''"
      by (cases part; cases "tl part") (auto simp: upper_def)
    with upper_char_not_lower [of "part ! 1"] show False by simp
  qed
  moreover have "upper part \<noteq> ''Admin''"
  proof
    assume "upper part = ''Admin''"
    then have "upper_char (part ! 1) = CHR ''d''"
      by (cases part; cases "tl part") (auto simp: upper_def)
    with upper_char_not_lower [of "part ! 1"] show False by simp
  qed
  ultimately show ?thesis
    using found part by (auto simp: RANK_PRICES_def split: if_splits)
qed

text \<open>
  Where the callback data resolves and the numbers of the reply can be formatted, a user
  who cannot pay gets the insufficient-funds reply and the store stays as it is; a user
  who can pay for the rank gets it, at its price, whatever the rank before.
\<close>

lemma shop_purchase_insufficient:
  assumes "shop_item_of callback_data = Inr (item_name, item_data)"
    and "users d (sender_id buyer) = Some u"
    and "coins u < price item_data"
    and "format_number_error (price item_data) = None"
    and "format_number_error (coins u) = None"
  shows "handle_shop_purchase d now buyer callback_data =
           ([Insufficient_Funds item_name (price item_data) (coins u)], d)"
  using assms by (simp add: handle_shop_purchase_def get_or_create_user_existing)

lemma rank_upgrade_insufficient:
  assumes "rank_price_of callback_data = Inr (target_rank, rank_price)"
    and "users d (sender_id buyer) = Some u"
    and "coins u < rank_price"
    and "format_number_error (coins u) = None"
  shows "handle_rank_upgrade d now buyer callback_data =
           ([Insufficient_Funds target_rank rank_price (coins u)], d)"
proof -
  have "rank_price = 5000"
    using rank_price_of_resolves_VIP_only [OF assms(1)] by simp
  then have "format_number_error rank_price = None"
    by (intro format_number_error_small) simp_all
  with assms show ?thesis
    by (simp add: handle_rank_upgrade_def get_or_create_user_existing)
qed

lemma rank_upgrade_affordable:
  assumes "rank_price_of callback_data = Inr (target_rank, rank_price)"
    and "users d (sender_id buyer) = Some u"
    and "rank_price \<le> coins u"
  shows "\<exists>replies d'. handle_rank_upgrade d now buyer callback_data = (replies, d') \<and>
              users d' (sender_id buyer) =
                Some (u\<lparr>coins := coins u - rank_price, rank := target_rank\<rparr>)"
  using assms
  by (simp add: handle_rank_upgrade_def get_or_create_user_existing update_user_existing
      log_transaction_def Let_def split: option.splits)

text \<open>
  Claim C7 says that a purchase or upgrade with too few coins fails as insufficient funds
  and changes neither coins nor rank. For the rank \<open>Premium\<close> the code fails differently:
  the user 1 with 100 coins presses the button that \<^verbatim>\<open>shop_command\<close> builds for
  \<open>Premium\<close> (price 15000) and gets the generic \<open>Upgrade_Error\<close>, with the store as it was.
\<close>

theorem rank_upgrade_premium_unaffordable:
  "handle_rank_upgrade (example_db (example_user 0 100 None 0)) example_now example_sender
       (upgrade_callback_data ''Premium'') =
     ([Upgrade_Error], example_db (example_user 0 100 None 0))"
  by (simp add: handle_rank_upgrade_def rank_price_of_premium_button)

text \<open>
  Claim C8 says that a user with enough coins gets the target rank and pays its price.
  For the rank \<open>Premium\<close> the code does neither: the user 1 with 20000 coins presses the
  button for \<open>Premium\<close> (price 15000) and gets the generic \<open>Upgrade_Error\<close>; coins and rank
  stay as they were.
\<close>

theorem rank_upgrade_premium_affordable:
  "handle_rank_upgrade (example_db (example_user 0 20000 None 0)) example_now example_sender
       (upgrade_callback_data ''Premium'') =
     ([Upgrade_Error], example_db (example_user 0 20000 None 0))"
  by (simp add: handle_rank_upgrade_def rank_price_of_premium_button)

text \<open>
  Claim C10. A purchase that the user \<open>u\<close> can pay writes the coins of \<open>u\<close> only: the
  coins go down by exactly the price of the item, and \<open>xp\<close>, \<open>level\<close>, \<open>rank\<close>,
  \<open>total_messages\<close>, \<open>last_daily\<close> and \<open>daily_streak\<close> stay as they were (so does every
  other field of the row).
\<close>

theorem shop_purchase_frame:
  assumes "shop_item_of callback_data = Inr (item_name, item_data)"
    and "users d (sender_id buyer) = Some u"
    and "price item_data \<le> coins u"
  shows "\<exists>replies d' u'.
           handle_shop_purchase d now buyer callback_data = (replies, d') \<and>
           users d' (sender_id buyer) = Some u' \<and>
           coins u' = coins u - price item_data \<and>
           xp u' = xp u \<and> level u' = level u \<and> rank u' = rank u \<and>
           total_messages u' = total_messages u \<and> last_daily u' = last_daily u \<and>
           daily_streak u' = daily_streak u \<and>
           u' = u\<lparr>coins := coins u - price item_data\<rparr>"
  using assms
  by (simp add: handle_shop_purchase_def get_or_create_user_existing update_user_existing
      log_transaction_def Let_def split: option.splits)

theorem shop_purchase_frame_witness:
  "shop_item_of (buy_callback_data 2) =
     Inr (''Custom Title'', \<lparr>price = 2000, item_type = ''cosmetic'', duration = None\<rparr>) \<and>
   users (example_db (example_user 98 2500 None 3)) (sender_id example_sender) =
     Some (example_user 98 2500 None 3) \<and>
   (2000::int) \<le> coins (example_user 98 2500 None 3) \<and>
   (\<exists>replies d'.
      handle_shop_purchase (example_db (example_user 98 2500 None 3)) example_now
          example_sender (buy_callback_data 2) = (replies, d') \<and>
      users d' (sender_id example_sender) = Some (example_user 98 500 None 3))"
proof -
  have h1: "shop_item_of (buy_callback_data 2) =
      Inr (''Custom Title'', \<lparr>price = 2000, item_type = ''cosmetic'', duration = None\<rparr>)"
    by code_simp
  have h2: "users (example_db (example_user 98 2500 None 3)) (sender_id example_sender) =
      Some (example_user 98 2500 None 3)"
    by (simp add: example_db_def example_user_def example_sender_def)
  have h3: "price \<lparr>price = 2000, item_type = ''cosmetic'', duration = None\<rparr>
      \<le> coins (example_user 98 2500 None 3)"
    by (simp add: example_user_def)
  show ?thesis
    using h1 h2 h3 shop_purchase_frame [OF h1 h2 h3, of example_now]
    by (auto simp: example_user_def)
qed

end
